theory Spec2Isabelle
  imports Complex_Main
begin

section \<open>The prompt composer of \<open>src/bot/prompts_idss.py\<close>\<close>

text \<open>
  The theory embeds \<open>create_trading_prompt\<close> and its nested helpers
  \<open>fmt\<close>, \<open>describe_freshness\<close> and \<open>summarize_news_sentiment\<close>.

  Conventions of the embedding.
  \<^item> A Python \<open>str\<close> is a \<open>string\<close> holding its UTF-8 bytes.
  \<^item> A Python \<open>int\<close> is an \<open>int\<close>; a Python \<open>float\<close> is the rational it
    denotes, and every floating-point operation rounds its exact result to 53 significant
    bits, ties to even (\<open>rnd\<close>). Infinities, NaN, the sign of zero and the bounds of the
    exponent are outside the model.
  \<^item> An instant (an aware \<open>datetime\<close>) is its number of microseconds since the epoch,
    in UTC; a \<open>timedelta\<close> is a number of microseconds.
  \<^item> A raised exception is the \<open>Inl\<close> branch of a sum.
  \<^item> What the function reads besides its two arguments is passed explicitly: the clock,
    the \<open>config\<close> module, the \<open>news_cache\<close> module, and the functions of the standard
    library whose text is not part of the repository (\<open>pylib\<close>).
\<close>

subsection \<open>Strings\<close>

definition digit_char :: "int \<Rightarrow> char" where
  "digit_char d = ''0123456789'' ! nat d"

text \<open>The decimal digits of a non-negative integer.\<close>

function digits10 :: "int \<Rightarrow> string" where
  "digits10 n = (if n < 10 then [digit_char n]
                 else digits10 (n div 10) @ [digit_char (n mod 10)])"
  by pat_completeness auto
termination
  by (relation "measure nat") auto

declare digits10.simps [simp del]

text \<open>\<open>str(i)\<close> for an \<open>int\<close>.\<close>

definition str_int :: "int \<Rightarrow> string" where
  "str_int i = (if i < 0 then CHR ''-'' # digits10 (- i) else digits10 i)"

text \<open>\<open>sep.join(xs)\<close>.\<close>

fun join :: "string \<Rightarrow> string list \<Rightarrow> string" where
  "join sep [] = []"
| "join sep [x] = x"
| "join sep (x # y # ys) = x @ sep @ join sep (y # ys)"

text \<open>
  \<open>s.replace(c, t)\<close> for a one-character pattern \<open>c\<close>: every occurrence, left to right.
\<close>

definition replace_char :: "char \<Rightarrow> string \<Rightarrow> string \<Rightarrow> string" where
  "replace_char c t s = concat (map (\<lambda>x. if x = c then t else [x]) s)"

text \<open>
  \<open>s.strip()\<close>: the ASCII characters Python counts as whitespace (tab to carriage return,
  the four separators \<open>0x1c\<close> to \<open>0x1f\<close>, and the space) are removed at both ends.
\<close>

definition is_space :: "char \<Rightarrow> bool" where
  "is_space c = (let n = (of_char c :: nat) in (9 \<le> n \<and> n \<le> 13) \<or> (28 \<le> n \<and> n \<le> 32))"

definition strip :: "string \<Rightarrow> string" where
  "strip s = rev (dropWhile is_space (rev (dropWhile is_space s)))"

text \<open>\<open>s.lower()\<close> and \<open>s.upper()\<close> on the ASCII letters.\<close>

definition lower_char :: "char \<Rightarrow> char" where
  "lower_char c = (let n = (of_char c :: nat) in if 65 \<le> n \<and> n \<le> 90 then char_of (n + 32) else c)"

definition upper_char :: "char \<Rightarrow> char" where
  "upper_char c = (let n = (of_char c :: nat) in if 97 \<le> n \<and> n \<le> 122 then char_of (n - 32) else c)"

definition lower :: "string \<Rightarrow> string" where
  "lower s = map lower_char s"

definition upper :: "string \<Rightarrow> string" where
  "upper s = map upper_char s"

text \<open>\<open>a > b\<close> on two \<open>str\<close>: lexicographic, character by character.\<close>

fun str_gt :: "string \<Rightarrow> string \<Rightarrow> bool" where
  "str_gt [] ys = False"
| "str_gt (x # xs) [] = True"
| "str_gt (x # xs) (y # ys) =
     (if (of_char x :: nat) > of_char y then True
      else if (of_char x :: nat) < of_char y then False
      else str_gt xs ys)"

subsection \<open>Floating point\<close>

function ilog2 :: "int \<Rightarrow> int" where
  "ilog2 n = (if n < 2 then 0 else 1 + ilog2 (n div 2))"
  by pat_completeness auto
termination
  by (relation "measure nat") auto

declare ilog2.simps [simp del]

definition pow2 :: "int \<Rightarrow> rat" where
  "pow2 k = (if 0 \<le> k then 2 ^ nat k else 1 / 2 ^ nat (- k))"

text \<open>The binary exponent of a positive rational \<open>a\<close>: \<open>2 ^ e \<le> a < 2 ^ (e + 1)\<close>.\<close>

definition binexp :: "rat \<Rightarrow> int" where
  "binexp a = (let (p, q) = quotient_of a;
                   k = ilog2 p - ilog2 q
               in if pow2 k \<le> a then k else k - 1)"

definition round_half_even :: "rat \<Rightarrow> int" where
  "round_half_even t = (let f = \<lfloor>t\<rfloor>; r = t - of_int f
     in if r < 1 / 2 then f else if 1 / 2 < r then f + 1
        else if f mod 2 = 0 then f else f + 1)"

text \<open>Rounding to the nearest double: 53 significant bits, ties to even.\<close>

definition rnd :: "rat \<Rightarrow> rat" where
  "rnd x = (if x = 0 then 0 else
     let a = \<bar>x\<bar>; sc = binexp a - 52;
         m = round_half_even (a / pow2 sc)
     in sgn x * of_int m * pow2 sc)"

text \<open>\<open>int(x)\<close> for a \<open>float\<close>: truncation towards zero.\<close>

definition py_int :: "rat \<Rightarrow> int" where
  "py_int x = (if 0 \<le> x then \<lfloor>x\<rfloor> else \<lceil>x\<rceil>)"

text \<open>A Python number: an \<open>int\<close> or a \<open>float\<close>.\<close>

datatype pynum = PInt int | PFloat rat

text \<open>\<open>float(n)\<close>.\<close>

fun fval :: "pynum \<Rightarrow> rat" where
  "fval (PInt i) = rnd (of_int i)"
| "fval (PFloat r) = r"

text \<open>The exact value of a number.\<close>

fun num_val :: "pynum \<Rightarrow> rat" where
  "num_val (PInt i) = of_int i"
| "num_val (PFloat r) = r"

fun num_sub :: "pynum \<Rightarrow> pynum \<Rightarrow> pynum" where
  "num_sub (PInt a) (PInt b) = PInt (a - b)"
| "num_sub a b = PFloat (rnd (fval a - fval b))"

fun num_mul :: "pynum \<Rightarrow> pynum \<Rightarrow> pynum" where
  "num_mul (PInt a) (PInt b) = PInt (a * b)"
| "num_mul a b = PFloat (rnd (fval a * fval b))"

text \<open>\<open>a / b\<close> for \<open>b\<close> a non-zero \<open>int\<close> literal: the quotient, correctly rounded.\<close>

fun num_truediv :: "pynum \<Rightarrow> int \<Rightarrow> rat" where
  "num_truediv (PInt a) b = rnd (of_int a / of_int b)"
| "num_truediv (PFloat r) b = rnd (r / rnd (of_int b))"

text \<open>\<open>format(x, '.Nf')\<close>: fixed point with \<open>N\<close> digits, the exact value rounded half to even.\<close>

definition pad_zeros :: "nat \<Rightarrow> string \<Rightarrow> string" where
  "pad_zeros n s = replicate (n - length s) CHR ''0'' @ s"

definition format_f :: "nat \<Rightarrow> rat \<Rightarrow> string" where
  "format_f n x =
     (let m = round_half_even (\<bar>x\<bar> * 10 ^ n);
          whole = digits10 (m div 10 ^ n);
          frac = pad_zeros n (digits10 (m mod 10 ^ n))
      in (if x < 0 then ''-'' else '''') @ whole @ (if n = 0 then '''' else ''.'' @ frac))"

text \<open>\<open>format(x, '+.Nf')\<close>: as above, with the sign of a non-negative value written out.\<close>

definition format_f_plus :: "nat \<Rightarrow> rat \<Rightarrow> string" where
  "format_f_plus n x = (if x < 0 then format_f n x else ''+'' @ format_f n x)"

subsection \<open>Values, dictionaries, the library\<close>

text \<open>
  The values a news entry holds: \<open>None\<close>, a \<open>str\<close> or a number. An entry is a \<open>dict\<close>;
  its keys are kept in a list, the first binding of a key being the one that counts.
\<close>

datatype pyval = VNone | VStr string | VNum pynum

type_synonym entry = "(string \<times> pyval) list"

datatype pyerr = KeyError | TypeError | AttributeError | OverflowError

text \<open>Truth value of a Python object.\<close>

fun truthy :: "pyval \<Rightarrow> bool" where
  "truthy VNone = False"
| "truthy (VStr s) = (s \<noteq> [])"
| "truthy (VNum n) = (num_val n \<noteq> 0)"

text \<open>\<open>a or b\<close>.\<close>

definition py_or :: "pyval \<Rightarrow> pyval \<Rightarrow> pyval" where
  "py_or a b = (if truthy a then a else b)"

text \<open>\<open>d.get(k)\<close> and \<open>d.get(k, default)\<close>.\<close>

definition get :: "entry \<Rightarrow> string \<Rightarrow> pyval" where
  "get d k = (case map_of d k of None \<Rightarrow> VNone | Some v \<Rightarrow> v)"

definition get_default :: "entry \<Rightarrow> string \<Rightarrow> pyval \<Rightarrow> pyval" where
  "get_default d k dflt = (case map_of d k of None \<Rightarrow> dflt | Some v \<Rightarrow> v)"

text \<open>
  A parsed \<open>datetime\<close>: the wall-clock reading in microseconds and the UTC offset, if the
  text carried one.
\<close>

record pdatetime =
  wall :: int
  utcoffset :: "int option"

text \<open>
  The standard-library functions the composer calls and whose text is not in the
  repository: \<open>datetime.fromisoformat\<close> (\<open>None\<close> for \<open>ValueError\<close>),
  \<open>datetime.isoformat\<close> and \<open>strftime("%Y-%m-%d %H:%M:%S %Z")\<close> of an instant in UTC,
  the UTC offset that the zone of the machine has at a wall-clock reading (what
  \<open>astimezone\<close> takes for a time without offset),
  \<open>repr\<close> of a \<open>float\<close>, and \<open>json.dumps\<close> of a \<open>str\<close>.
\<close>

record pylib =
  fromisoformat :: "string \<Rightarrow> pdatetime option"
  isoformat :: "int \<Rightarrow> string"
  local_utcoffset :: "int \<Rightarrow> int"
  strftime :: "int \<Rightarrow> string"
  float_repr :: "rat \<Rightarrow> string"
  json_str :: "string \<Rightarrow> string"

text \<open>\<open>str(v)\<close>, as an f-string and \<open>str()\<close> render a value.\<close>

fun str_num :: "pylib \<Rightarrow> pynum \<Rightarrow> string" where
  "str_num L (PInt i) = str_int i"
| "str_num L (PFloat r) = float_repr L r"

fun py_str :: "pylib \<Rightarrow> pyval \<Rightarrow> string" where
  "py_str L VNone = ''None''"
| "py_str L (VStr s) = s"
| "py_str L (VNum n) = str_num L n"

subsection \<open>\<open>describe_freshness\<close>\<close>

text \<open>\<open>timedelta.total_seconds()\<close>: microseconds divided by \<open>10 ** 6\<close>, as a float.\<close>

definition total_seconds :: "int \<Rightarrow> rat" where
  "total_seconds d = rnd (of_int d / 1000000)"

text \<open>
  The instants a \<open>datetime\<close> can hold: from \<open>datetime.min\<close>, the start of year 1, to
  \<open>datetime.max\<close>, the last microsecond of year 9999.
\<close>

definition datetime_min :: int where
  "datetime_min = - 62135596800000000"

definition datetime_max :: int where
  "datetime_max = 253402300799999999"

text \<open>
  \<open>dt.astimezone(timezone.utc)\<close> for a time with offset \<open>off\<close>: the wall-clock reading
  minus the offset; \<open>OverflowError\<close> when the result is not a \<open>datetime\<close>.
\<close>

definition astimezone_utc :: "int \<Rightarrow> int \<Rightarrow> pyerr + int" where
  "astimezone_utc w off =
     (let u = w - off
      in if datetime_min \<le> u \<and> u \<le> datetime_max then Inr u else Inl OverflowError)"

text \<open>
  Lines 438 to 440: a parsed time without offset is taken as UTC, and the time is
  converted to UTC. The conversion is outside the \<open>try\<close> of lines 433 to 436.
\<close>

definition to_utc :: "pdatetime \<Rightarrow> pyerr + int" where
  "to_utc dt = astimezone_utc (wall dt) (case utcoffset dt of None \<Rightarrow> 0 | Some off \<Rightarrow> off)"

text \<open>The f-string \<open>f"{n} unit{'s' if n != 1 else ''} ago"\<close> of lines 452 to 471.\<close>

definition ago :: "int \<Rightarrow> string \<Rightarrow> string" where
  "ago n unit = str_int n @ '' '' @ unit @ (if n \<noteq> 1 then ''s'' else '''') @ '' ago''"

text \<open>Lines 443 to 446: the clamp and the whole number of seconds.\<close>

definition age_seconds :: "int \<Rightarrow> int" where
  "age_seconds diff =
     (let diff = (if total_seconds diff < 0 then 0 else diff)
      in py_int (total_seconds diff))"

text \<open>Lines 447 to 471.\<close>

definition age_phrase :: "int \<Rightarrow> string" where
  "age_phrase seconds =
     (if seconds < 60 then ''just now''
      else let minutes = seconds div 60 in
        if minutes < 60 then ago minutes ''minute''
        else let hours = minutes div 60 in
          if hours < 24 then ago hours ''hour''
          else let days = hours div 24 in
            if days < 7 then ago days ''day''
            else let weeks = days div 7 in
              if weeks < 5 then ago weeks ''week''
              else let months = days div 30 in
                if months < 12 then ago months ''month''
                else let years = days div 365 in ago years ''year'')"

text \<open>
  Lines 422 to 436: the value returned early (\<open>Inl\<close>), or the parsed time (\<open>Inr\<close>).
\<close>

definition parse_published :: "pylib \<Rightarrow> entry \<Rightarrow> pyval + pdatetime" where
  "parse_published L entry =
     (let published_candidate = py_or (get entry ''published_at'') (get entry ''date'');
          raw_candidate = get entry ''raw_date''
      in if \<not> truthy published_candidate then Inl raw_candidate
         else let iso_candidate = strip (py_str L published_candidate) in
           if iso_candidate = [] then Inl raw_candidate
           else let iso_candidate = replace_char CHR ''Z'' ''+00:00'' iso_candidate in
             case fromisoformat L iso_candidate of
               None \<Rightarrow> Inl (py_or raw_candidate (VStr iso_candidate))
             | Some published_dt \<Rightarrow> Inr published_dt)"

definition describe_freshness :: "pylib \<Rightarrow> int \<Rightarrow> entry \<Rightarrow> pyerr + pyval" where
  "describe_freshness L now entry =
     (case parse_published L entry of
        Inl early \<Rightarrow> Inr early
      | Inr published_dt \<Rightarrow>
          (case to_utc published_dt of
             Inl e \<Rightarrow> Inl e
           | Inr published_utc \<Rightarrow>
               Inr (VStr (age_phrase (age_seconds (now - published_utc))))))"

text \<open>
  A library for the examples: its parser accepts two texts, 10:00:00 UTC on 3 November 2025
  and the first instant of year 1 at seven hours east of UTC, and rejects every other.
\<close>

definition demo_lib :: pylib where
  "demo_lib = \<lparr> fromisoformat = (\<lambda>s. if s = ''2025-11-03T10:00:00+00:00''
                                    then Some \<lparr> wall = 1762164000000000, utcoffset = Some 0 \<rparr>
                                    else if s = ''0001-01-01T00:00:00+07:00''
                                    then Some \<lparr> wall = - 62135596800000000,
                                                 utcoffset = Some 25200000000 \<rparr>
                                    else None),
                isoformat = (\<lambda>t. str_int t),
                local_utcoffset = (\<lambda>w. 25200000000),
                strftime = (\<lambda>t. str_int t),
                float_repr = (\<lambda>r. format_f 1 r),
                json_str = (\<lambda>s. ''\"'' @ s @ ''\"'') \<rparr>"

subsection \<open>\<open>summarize_news_sentiment\<close>\<close>

text \<open>
  Line 487, \<open>(entry.get("sentiment") or "unknown").lower()\<close>: a value that is true and
  not a \<open>str\<close> has no method \<open>lower\<close>.
\<close>

definition as_str :: "pyval \<Rightarrow> pyerr + string" where
  "as_str v = (case v of VStr s \<Rightarrow> Inr s | _ \<Rightarrow> Inl AttributeError)"

definition sentiment_label :: "entry \<Rightarrow> pyerr + string" where
  "sentiment_label entry =
     (case as_str (py_or (get entry ''sentiment'') (VStr ''unknown'')) of
        Inl e \<Rightarrow> Inl e
      | Inr s \<Rightarrow> Inr (lower s))"

text \<open>The dictionary \<open>sentiment_weights\<close> of line 481.\<close>

definition sentiment_weights :: "string \<Rightarrow> rat option" where
  "sentiment_weights sent =
     (if sent = ''positive'' then Some 1
      else if sent = ''negative'' then Some (- 1)
      else if sent = ''neutral'' then Some 0
      else None)"

text \<open>
  The variables of the loop of lines 486 to 505: the dictionary \<open>counts\<close>, the list
  \<open>weighted_scores\<close> and \<open>key_entry\<close>. The entries of the list are distinct objects:
  the key entry is kept with its position in the list, which stands for its identity.
\<close>

record agg =
  count_positive :: int
  count_negative :: int
  count_neutral :: int
  count_unknown :: int
  weighted_scores :: "rat list"
  key_entry :: "(nat \<times> entry) option"

definition agg_init :: agg where
  "agg_init = \<lparr> count_positive = 0, count_negative = 0, count_neutral = 0, count_unknown = 0,
                weighted_scores = [], key_entry = None \<rparr>"

text \<open>\<open>counts[sent] += 1\<close> for one of the three recognised labels.\<close>

definition bump_count :: "string \<Rightarrow> agg \<Rightarrow> agg" where
  "bump_count sent a =
     (if sent = ''positive'' then a\<lparr>count_positive := count_positive a + 1\<rparr>
      else if sent = ''negative'' then a\<lparr>count_negative := count_negative a + 1\<rparr>
      else a\<lparr>count_neutral := count_neutral a + 1\<rparr>)"

text \<open>Lines 487 to 496.\<close>

definition score_entry :: "entry \<Rightarrow> agg \<Rightarrow> pyerr + agg" where
  "score_entry entry a =
     (case sentiment_label entry of
        Inl e \<Rightarrow> Inl e
      | Inr sent \<Rightarrow>
          (case sentiment_weights sent of
             None \<Rightarrow> Inr (a\<lparr>count_unknown := count_unknown a + 1\<rparr>)
           | Some w \<Rightarrow>
               let a = bump_count sent a;
                   confidence = get entry ''sentiment_confidence''
               in (case confidence of
                     VNum c \<Rightarrow>
                       Inr (a\<lparr>weighted_scores := weighted_scores a @ [fval (num_mul (PFloat w) c)]\<rparr>)
                   | _ \<Rightarrow> Inr (a\<lparr>weighted_scores := weighted_scores a @ [w]\<rparr>))))"

text \<open>Truth value of an \<open>Optional[dict]\<close>: \<open>None\<close> and the empty dictionary are false.\<close>

definition key_truthy :: "(nat \<times> entry) option \<Rightarrow> bool" where
  "key_truthy k = (case k of None \<Rightarrow> False | Some (i, e) \<Rightarrow> e \<noteq> [])"

text \<open>\<open>entry.get("published_at") or entry.get("date") or ""\<close>.\<close>

definition timestamp_of :: "entry \<Rightarrow> pyval" where
  "timestamp_of entry = py_or (get entry ''published_at'') (py_or (get entry ''date'') (VStr ''''))"

text \<open>\<open>a > b\<close>: defined on two \<open>str\<close> and on two numbers.\<close>

fun py_gt :: "pyval \<Rightarrow> pyval \<Rightarrow> pyerr + bool" where
  "py_gt (VStr a) (VStr b) = Inr (str_gt a b)"
| "py_gt (VNum a) (VNum b) = Inr (num_val b < num_val a)"
| "py_gt a b = Inl TypeError"

text \<open>Lines 499 to 505.\<close>

definition select_key :: "nat \<Rightarrow> entry \<Rightarrow> agg \<Rightarrow> pyerr + agg" where
  "select_key i entry a =
     (if \<not> key_truthy (key_entry a) then Inr (a\<lparr>key_entry := Some (i, entry)\<rparr>)
      else let ts_new = timestamp_of entry;
               ts_old = timestamp_of (snd (the (key_entry a)))
           in if \<not> truthy ts_new then Inr a
              else (case py_gt ts_new ts_old of
                      Inl e \<Rightarrow> Inl e
                    | Inr gt \<Rightarrow> Inr (if gt then a\<lparr>key_entry := Some (i, entry)\<rparr> else a)))"

text \<open>The loop, from the entry at position \<open>i\<close> on.\<close>

fun agg_loop :: "nat \<Rightarrow> entry list \<Rightarrow> agg \<Rightarrow> pyerr + agg" where
  "agg_loop i [] a = Inr a"
| "agg_loop i (entry # rest) a =
     (case score_entry entry a of
        Inl e \<Rightarrow> Inl e
      | Inr a1 \<Rightarrow>
          (case select_key i entry a1 of
             Inl e \<Rightarrow> Inl e
           | Inr a2 \<Rightarrow> agg_loop (Suc i) rest a2))"

text \<open>
  \<open>statistics.fmean\<close>: \<open>fsum(data) / n\<close>, the exactly rounded sum divided by the length.
  The length of a list is below \<open>2 ^ 53\<close> and converts to a float without rounding.
\<close>

definition fmean :: "rat list \<Rightarrow> rat" where
  "fmean xs = rnd (rnd (sum_list xs) / of_int (int (length xs)))"

text \<open>Lines 507 to 513; the literal \<open>0.2\<close> is the double nearest to one fifth.\<close>

definition net_score_of :: "rat list \<Rightarrow> rat" where
  "net_score_of ws = (if ws \<noteq> [] then fmean ws else 0)"

definition sentiment_bias :: "rat \<Rightarrow> string" where
  "sentiment_bias net_score =
     (if rnd (1 / 5) \<le> net_score then ''Bullish tilt''
      else if net_score \<le> - rnd (1 / 5) then ''Bearish tilt''
      else ''Mixed/neutral bias'')"

text \<open>Lines 515 to 518.\<close>

definition summary_line_of :: "agg \<Rightarrow> string" where
  "summary_line_of a =
     (let net_score = net_score_of (weighted_scores a)
      in sentiment_bias net_score @ '': +'' @ str_int (count_positive a) @ '' / -''
         @ str_int (count_negative a) @ '' / ='' @ str_int (count_neutral a)
         @ '' (net score '' @ format_f_plus 2 net_score @ '').'')"

text \<open>
  \<open>entry.get("summary") or entry.get("snippet") or entry.get("title", "")\<close>, then
  \<open>.replace("\n", " ").strip()\<close>, which only a \<open>str\<close> has.
\<close>

definition headline_text :: "entry \<Rightarrow> pyerr + string" where
  "headline_text entry =
     (case as_str (py_or (get entry ''summary'')
                     (py_or (get entry ''snippet'') (get_default entry ''title'' (VStr ''''))))
      of Inl e \<Rightarrow> Inl e
       | Inr s \<Rightarrow> Inr (strip (replace_char (CHR 0x0A) '' '' s)))"

text \<open>\<open>(entry.get("sentiment") or "unknown").upper()\<close>.\<close>

definition sentiment_upper :: "entry \<Rightarrow> pyerr + string" where
  "sentiment_upper entry =
     (case as_str (py_or (get entry ''sentiment'') (VStr ''unknown'')) of
        Inl e \<Rightarrow> Inl e
      | Inr s \<Rightarrow> Inr (upper s))"

text \<open>Lines 520 to 533.\<close>

definition key_line_of :: "pylib \<Rightarrow> int \<Rightarrow> (nat \<times> entry) option \<Rightarrow> pyerr + string" where
  "key_line_of L now k =
     (if key_truthy k then
        let key = snd (the k) in
        (case headline_text key of
           Inl e \<Rightarrow> Inl e
         | Inr key_summary \<Rightarrow>
             (case sentiment_upper key of
                Inl e \<Rightarrow> Inl e
              | Inr key_sentiment \<Rightarrow>
                  (case describe_freshness L now key of
                     Inl e \<Rightarrow> Inl e
                   | Inr freshness \<Rightarrow>
                       let key_line = ''Key headline ['' @ key_sentiment @ ''] '' @ key_summary
                       in Inr (if truthy freshness
                               then key_line @ '' (published '' @ py_str L freshness @ '')''
                               else key_line))))
      else Inr '''')"

text \<open>
  The function: \<open>None\<close> for an empty list, else the summary line, the key line and the key
  entry (\<open>None\<close> when it is false).
\<close>

definition summarize_news_sentiment ::
    "pylib \<Rightarrow> int \<Rightarrow> entry list \<Rightarrow> pyerr + (string \<times> string \<times> (nat \<times> entry) option) option" where
  "summarize_news_sentiment L now entries =
     (if entries = [] then Inr None
      else (case agg_loop 0 entries agg_init of
              Inl e \<Rightarrow> Inl e
            | Inr a \<Rightarrow>
                (case key_line_of L now (key_entry a) of
                   Inl e \<Rightarrow> Inl e
                 | Inr key_line \<Rightarrow>
                     Inr (Some (summary_line_of a, key_line,
                                if key_truthy (key_entry a) then key_entry a else None)))))"

text \<open>
  The sentences of the specification on the net score, written out on their own. The label
  of an entry is its \<open>sentiment\<close>, lower-cased; the weights are +1 for positive, -1 for
  negative and 0 for neutral; the contribution of an entry with a recognised label is the
  product of weight and confidence, a floating-point product, or the weight alone without a
  numeric confidence; the net score is the mean of the contributions, 0 when there is none.
  The mean is written twice: \<open>arithmetic_mean\<close> in exact arithmetic, and
  \<open>spec_net_score\<close> with the two roundings of a mean of floats, one of the sum and one of
  the quotient.
\<close>

definition spec_label :: "entry \<Rightarrow> string option" where
  "spec_label entry = (case get entry ''sentiment'' of VStr s \<Rightarrow> Some (lower s) | _ \<Rightarrow> None)"

definition spec_weight :: "string \<Rightarrow> rat option" where
  "spec_weight label =
     (if label = ''positive'' then Some 1
      else if label = ''negative'' then Some (- 1)
      else if label = ''neutral'' then Some 0
      else None)"

definition spec_contribution :: "entry \<Rightarrow> rat option" where
  "spec_contribution entry =
     (case spec_label entry of
        None \<Rightarrow> None
      | Some label \<Rightarrow>
          (case spec_weight label of
             None \<Rightarrow> None
           | Some w \<Rightarrow>
               (case get entry ''sentiment_confidence'' of
                  VNum c \<Rightarrow> Some (rnd (w * fval c))
                | _ \<Rightarrow> Some w)))"

definition spec_contributions :: "entry list \<Rightarrow> rat list" where
  "spec_contributions entries = List.map_filter spec_contribution entries"

definition arithmetic_mean :: "rat list \<Rightarrow> rat" where
  "arithmetic_mean xs = sum_list xs / of_nat (length xs)"

definition spec_net_score :: "entry list \<Rightarrow> rat" where
  "spec_net_score entries =
     (let cs = spec_contributions entries
      in if cs = [] then 0 else rnd (rnd (sum_list cs) / of_nat (length cs)))"

text \<open>The number of entries with the label \<open>label\<close>.\<close>

definition spec_count :: "string \<Rightarrow> entry list \<Rightarrow> int" where
  "spec_count label entries = int (length (filter (\<lambda>e. spec_label e = Some label) entries))"

text \<open>
  A news entry of the data model: a dictionary with a title that is a \<open>str\<close>, whose
  summary, snippet and sentiment label are each absent, \<open>None\<close> or a \<open>str\<close>.
\<close>

definition text_or_none :: "pyval \<Rightarrow> bool" where
  "text_or_none v = (case v of VNum n \<Rightarrow> False | _ \<Rightarrow> True)"

definition news_entry :: "entry \<Rightarrow> bool" where
  "news_entry e =
     ((case get e ''title'' of VStr t \<Rightarrow> True | _ \<Rightarrow> False)
      \<and> text_or_none (get e ''summary'') \<and> text_or_none (get e ''snippet'')
      \<and> text_or_none (get e ''sentiment''))"

text \<open>
  An entry with an unrecognised or absent label and without a timestamp: the label has no
  weight, and neither \<open>published_at\<close> nor \<open>date\<close> holds a true value.
\<close>

definition unknown_undated :: "entry \<Rightarrow> bool" where
  "unknown_undated e =
     ((case spec_label e of None \<Rightarrow> True | Some label \<Rightarrow> spec_weight label = None)
      \<and> \<not> truthy (get e ''published_at'') \<and> \<not> truthy (get e ''date''))"

text \<open>
  The three entries of the example of the specification: positive with confidence 0.8,
  negative with confidence 0.2, neutral without confidence.
\<close>

definition example_entries :: "entry list" where
  "example_entries =
     [[(''sentiment'', VStr ''positive''), (''sentiment_confidence'', VNum (PFloat (rnd (4 / 5))))],
      [(''sentiment'', VStr ''negative''), (''sentiment_confidence'', VNum (PFloat (rnd (1 / 5))))],
      [(''sentiment'', VStr ''neutral'')]]"

section \<open>Properties\<close>

subsection \<open>Rounding keeps the sign\<close>

lemma pow2_powi: "pow2 k = 2 powi k"
  by (simp add: pow2_def power_int_def inverse_eq_divide power_one_over)

lemma pow2_pos: "0 < pow2 k"
  by (simp add: pow2_powi)

lemma round_half_even_nonneg: "0 \<le> t \<Longrightarrow> 0 \<le> round_half_even t"
  by (simp add: round_half_even_def Let_def)

lemma round_half_even_pos: "1 \<le> t \<Longrightarrow> 1 \<le> round_half_even t"
proof -
  assume "1 \<le> t"
  then have "1 \<le> \<lfloor>t\<rfloor>" by linarith
  then show ?thesis by (simp add: round_half_even_def Let_def)
qed

lemma rnd_zero: "rnd 0 = 0"
  by (simp add: rnd_def)

lemma rnd_nonneg: "0 \<le> x \<Longrightarrow> 0 \<le> rnd x"
proof -
  assume x: "0 \<le> x"
  have "0 \<le> \<bar>x\<bar> / pow2 (binexp \<bar>x\<bar> - 52)"
    using pow2_pos [of "binexp \<bar>x\<bar> - 52"] by simp
  then have "0 \<le> round_half_even (\<bar>x\<bar> / pow2 (binexp \<bar>x\<bar> - 52))"
    by (rule round_half_even_nonneg)
  then show ?thesis
    using x pow2_pos [of "binexp \<bar>x\<bar> - 52"] by (simp add: rnd_def Let_def sgn_if)
qed

lemma ilog2_nonneg: "0 \<le> ilog2 n"
  by (induction n rule: ilog2.induct) (simp add: ilog2.simps)

lemma ilog2_le: "0 < n \<Longrightarrow> 2 powi ilog2 n \<le> (of_int n :: rat)"
proof (induction n rule: ilog2.induct)
  case (1 n)
  show ?case
  proof (cases "n < 2")
    case True
    with "1.prems" show ?thesis by (simp add: ilog2.simps)
  next
    case False
    then have "0 < n div 2" by simp
    with "1.IH" False have "2 powi ilog2 (n div 2) \<le> (of_int (n div 2) :: rat)" by simp
    moreover have "(of_int (n div 2) :: rat) * 2 \<le> of_int n"
    proof -
      have "(n div 2) * 2 \<le> n" by simp
      then have "(of_int ((n div 2) * 2) :: rat) \<le> of_int n" by (simp only: of_int_le_iff)
      then show ?thesis by simp
    qed
    ultimately have "2 powi ilog2 (n div 2) * 2 \<le> (of_int n :: rat)" by linarith
    moreover have "(2::rat) powi (1 + ilog2 (n div 2)) = 2 powi ilog2 (n div 2) * 2"
      by (simp add: power_int_add)
    ultimately show ?thesis using False by (simp add: ilog2.simps [of n])
  qed
qed

lemma ilog2_gt: "(of_int n :: rat) < 2 powi (ilog2 n + 1)"
proof (induction n rule: ilog2.induct)
  case (1 n)
  show ?case
  proof (cases "n < 2")
    case True
    then have "(of_int n :: rat) < 2" by simp
    with True show ?thesis by (simp add: ilog2.simps)
  next
    case False
    define k where "k = ilog2 (n div 2) + 1"
    have ih: "(of_int (n div 2) :: rat) < 2 powi k"
      using "1.IH" False by (simp add: k_def)
    have k: "0 \<le> k" using ilog2_nonneg [of "n div 2"] by (simp add: k_def)
    have eq: "2 powi k = (of_int (2 ^ nat k) :: rat)"
      using k by (simp add: power_int_def)
    have "(of_int (n div 2) :: rat) < of_int (2 ^ nat k)" using ih eq by simp
    then have "n div 2 < 2 ^ nat k" by (simp only: of_int_less_iff)
    then have "n div 2 + 1 \<le> 2 ^ nat k" by simp
    moreover have "n < (n div 2 + 1) * 2" by presburger
    ultimately have "n < 2 ^ nat k * 2" by linarith
    then have "(of_int n :: rat) < of_int (2 ^ nat k * 2)" by (simp only: of_int_less_iff)
    then have "(of_int n :: rat) < 2 powi k * 2" using eq by simp
    moreover have "(2::rat) powi (1 + k) = 2 powi k * 2"
      by (simp add: power_int_add)
    ultimately have "(of_int n :: rat) < 2 powi (1 + ilog2 (n div 2) + 1)"
      by (simp add: k_def add.assoc)
    then show ?thesis using False by (simp add: ilog2.simps [of n])
  qed
qed

lemma binexp_le:
  assumes "0 < a"
  shows "pow2 (binexp a) \<le> a"
proof -
  obtain p q where pq: "quotient_of a = (p, q)" by (cases "quotient_of a")
  have q: "0 < q" using pq quotient_of_denom_pos by blast
  have a: "a = of_int p / of_int q" using pq quotient_of_div by blast
  have p: "0 < p" using assms q a by (simp add: zero_less_divide_iff)
  have P: "(2::rat) powi ilog2 p \<le> of_int p" using p by (rule ilog2_le)
  have Q: "(of_int q :: rat) < 2 powi (ilog2 q + 1)" by (rule ilog2_gt)
  have "(2::rat) powi ilog2 p / 2 powi (ilog2 q + 1) \<le> of_int p / of_int q"
    using P Q q p by (intro frac_le) simp_all
  moreover have "(2::rat) powi (ilog2 p - (ilog2 q + 1)) = 2 powi ilog2 p / 2 powi (ilog2 q + 1)"
    by (rule power_int_diff) simp
  moreover have "ilog2 p - ilog2 q - 1 = ilog2 p - (ilog2 q + 1)" by simp
  ultimately have "pow2 (ilog2 p - ilog2 q - 1) \<le> a" using a by (simp only: pow2_powi)
  then show ?thesis
    using pq by (simp add: binexp_def Let_def)
qed

lemma rnd_neg:
  assumes "x < 0"
  shows "rnd x < 0"
proof -
  define a where "a = \<bar>x\<bar>"
  define sc where "sc = binexp a - 52"
  have a: "0 < a" using assms by (simp add: a_def)
  have "pow2 (binexp a) \<le> a" using a by (rule binexp_le)
  moreover have "pow2 (binexp a) = pow2 sc * 2 ^ 52"
    by (simp add: sc_def pow2_powi power_int_diff)
  ultimately have "pow2 sc * 1 \<le> a"
    using pow2_pos [of sc] by (smt (verit) mult_left_mono one_le_numeral one_le_power order_trans less_imp_le)
  then have "1 \<le> a / pow2 sc" using pow2_pos [of sc] by (simp add: pos_le_divide_eq mult.commute)
  then have "1 \<le> round_half_even (a / pow2 sc)" by (rule round_half_even_pos)
  then have "0 < (of_int (round_half_even (a / pow2 sc)) :: rat) * pow2 sc"
    using pow2_pos [of sc] by simp
  then show ?thesis
    using assms by (simp add: rnd_def Let_def a_def [symmetric] sc_def [symmetric] sgn_if)
qed


subsection \<open>The freshness phrase\<close>

lemma div_chain:
  "(s::int) div 60 div 60 = s div 3600"
  "s div 3600 div 24 = s div 86400"
  "s div 86400 div 7 = s div 604800"
  "s div 86400 div 30 = s div 2592000"
  "s div 86400 div 365 = s div 31536000"
  by (simp_all add: zdiv_zmult2_eq [symmetric])

lemma int_div_less_iff:
  assumes "0 < k"
  shows "((s::int) div k < j) = (s < j * k)"
proof -
  have "s div k = \<lfloor>(of_int s :: rat) / of_int k\<rfloor>"
    by (simp add: floor_divide_of_int_eq)
  then have "(s div k < j) = ((of_int s :: rat) / of_int k < of_int j)"
    by (simp add: floor_less_iff)
  also have "\<dots> = ((of_int s :: rat) < of_int j * of_int k)"
    using assms by (simp add: pos_divide_less_eq)
  also have "\<dots> = (s < j * k)"
    by (metis of_int_less_iff of_int_mult)
  finally show ?thesis .
qed

lemma div_less:
  "((s::int) div 60 < 60) = (s < 3600)"
  "(s div 3600 < 24) = (s < 86400)"
  "(s div 86400 < 7) = (s < 604800)"
  "(s div 604800 < 5) = (s < 3024000)"
  "(s div 2592000 < 12) = (s < 31104000)"
  by (simp_all add: int_div_less_iff)

lemma age_phrase_buckets:
  "age_phrase s =
     (if s < 60 then ''just now''
      else if s < 3600 then ago (s div 60) ''minute''
      else if s < 86400 then ago (s div 3600) ''hour''
      else if s < 604800 then ago (s div 86400) ''day''
      else if s < 3024000 then ago (s div 604800) ''week''
      else if s < 31104000 then ago (s div 2592000) ''month''
      else ago (s div 31536000) ''year'')"
  by (simp only: age_phrase_def Let_def div_chain div_less)

lemma age_seconds_future: "d < 0 \<Longrightarrow> age_seconds d = 0"
proof -
  assume "d < 0"
  then have "(of_int d :: rat) / 1000000 < 0" by simp
  then have "total_seconds d < 0" unfolding total_seconds_def by (rule rnd_neg)
  then show ?thesis by (simp add: age_seconds_def total_seconds_def rnd_zero py_int_def)
qed

lemma age_seconds_nonneg: "0 \<le> age_seconds d"
proof (cases "total_seconds d < 0")
  case True
  then show ?thesis by (simp add: age_seconds_def total_seconds_def rnd_zero py_int_def)
next
  case False
  then show ?thesis by (simp add: age_seconds_def py_int_def)
qed

lemma describe_freshness_parsed:
  "parse_published L entry = Inr dt \<Longrightarrow> to_utc dt = Inr published_utc \<Longrightarrow>
   describe_freshness L now entry
     = Inr (VStr (age_phrase (age_seconds (now - published_utc))))"
  by (simp add: describe_freshness_def)

lemma sample_30: "age_phrase (age_seconds (30 * 1000000)) = ''just now''"
  by code_simp

lemma sample_90: "age_phrase (age_seconds (90 * 1000000)) = ''1 minute ago''"
  by code_simp

lemma sample_3600: "age_phrase (age_seconds (3600 * 1000000)) = ''1 hour ago''"
  by code_simp

lemma sample_90000: "age_phrase (age_seconds (90000 * 1000000)) = ''1 day ago''"
  by code_simp

lemma sample_8d: "age_phrase (age_seconds (8 * 86400 * 1000000)) = ''1 week ago''"
  by code_simp

lemma sample_40d: "age_phrase (age_seconds (40 * 86400 * 1000000)) = ''1 month ago''"
  by code_simp

lemma sample_400d: "age_phrase (age_seconds (400 * 86400 * 1000000)) = ''1 year ago''"
  by code_simp

lemma demo_parse:
  "parse_published demo_lib [(''published_at'', VStr ''2025-11-03T10:00:00Z'')]
     = Inr \<lparr> wall = 1762164000000000, utcoffset = Some 0 \<rparr>"
  by code_simp

lemma demo_to_utc:
  "to_utc \<lparr> wall = 1762164000000000, utcoffset = Some 0 \<rparr> = Inr 1762164000000000"
  by code_simp

text \<open>
  What lines 442 to 471 do once the publish time has been parsed and converted: the phrase
  depends only on \<open>s\<close>, the whole number of seconds of \<open>now - published\<close> after the clamp;
  \<open>s\<close> is never negative and is 0 for a time in the future; below 60 the phrase is
  "just now", below 3600 it counts minutes, below 24 hours hours, below 7 days days, below
  35 days weeks, below 360 days months of 30 days, and from there years of 365 days.
\<close>

lemma freshness_phrase_converted:
  assumes "parse_published L entry = Inr dt" and "to_utc dt = Inr published_utc"
  shows "(let s = age_seconds (now - published_utc) in
           0 \<le> s
         \<and> (now < published_utc \<longrightarrow> s = 0)
         \<and> describe_freshness L now entry = Inr (VStr
             (if s < 60 then ''just now''
              else if s < 60 * 60 then ago (s div 60) ''minute''
              else if s < 24 * 3600 then ago (s div 3600) ''hour''
              else if s < 7 * 86400 then ago (s div 86400) ''day''
              else if s < 5 * (7 * 86400) then ago (s div (7 * 86400)) ''week''
              else if s < 12 * (30 * 86400) then ago (s div (30 * 86400)) ''month''
              else ago (s div (365 * 86400)) ''year'')))"
proof -
  have a: "0 \<le> age_seconds (now - published_utc)" by (rule age_seconds_nonneg)
  have b: "now < published_utc \<longrightarrow> age_seconds (now - published_utc) = 0"
    by (simp add: age_seconds_future)
  have c: "describe_freshness L now entry
             = Inr (VStr (age_phrase (age_seconds (now - published_utc))))"
    using assms by (rule describe_freshness_parsed)
  show ?thesis
    unfolding Let_def
    using a b by (simp only: c age_phrase_buckets) simp
qed

text \<open>
  C5. An entry with \<open>published_at = "0001-01-01T00:00:00+07:00"\<close>: the text parses, to the
  first instant of year 1 with an offset of seven hours, and the conversion to UTC of line
  440, seven hours before \<open>datetime.min\<close>, raises \<open>OverflowError\<close>. The function returns
  no phrase: the exception leaves it.
\<close>

theorem describe_freshness_conversion_overflow:
  "parse_published demo_lib [(''published_at'', VStr ''0001-01-01T00:00:00+07:00'')]
     = Inr \<lparr> wall = - 62135596800000000, utcoffset = Some 25200000000 \<rparr>
   \<and> describe_freshness demo_lib 1762164000000000
       [(''published_at'', VStr ''0001-01-01T00:00:00+07:00'')] = Inl OverflowError"
  by code_simp

text \<open>
  C10. When the publish time parses and converts, and the age is at least 360 and at most
  364 whole days, the phrase is "0 years ago": the month branch ends at 12 months of 30
  days, and the year count is the floor of days by 365.
\<close>

theorem describe_freshness_zero_years:
  assumes "parse_published L entry = Inr dt"
    and "to_utc dt = Inr published_utc"
    and "360 \<le> age_seconds (now - published_utc) div 86400"
    and "age_seconds (now - published_utc) div 86400 \<le> 364"
  shows "describe_freshness L now entry = Inr (VStr ''0 years ago'')"
proof -
  define s where "s = age_seconds (now - published_utc)"
  have lo: "31104000 \<le> s" using assms(3) unfolding s_def by linarith
  have hi: "s < 31536000" using assms(4) unfolding s_def by linarith
  have "s div 31536000 = 0" using lo hi by simp
  then have "age_phrase s = ''0 years ago''"
    using lo by (simp add: age_phrase_buckets ago_def str_int_def digits10.simps digit_char_def)
  then show ?thesis
    using describe_freshness_parsed [OF assms(1,2), of now] by (simp add: s_def)
qed

lemma sample_362d: "age_seconds (362 * 86400 * 1000000) = 31276800"
  by code_simp

theorem describe_freshness_zero_years_witness:
  "describe_freshness demo_lib (1762164000000000 + 362 * 86400 * 1000000)
     [(''published_at'', VStr ''2025-11-03T10:00:00Z'')] = Inr (VStr ''0 years ago'')"
proof -
  have "age_seconds (1762164000000000 + 362 * 86400 * 1000000 - 1762164000000000) = 31276800"
    using sample_362d by simp
  then show ?thesis
    using describe_freshness_zero_years [OF demo_parse demo_to_utc,
        of "1762164000000000 + 362 * 86400 * 1000000"]
    by simp
qed

text \<open>
  C3. An entry whose only date field is \<open>published_at = "03 Nov 2025 10:00Z"\<close>: the text
  is not ISO-8601, before or after the replacement of \<open>Z\<close>, and there is no
  \<open>raw_date\<close>. The function returns the text it tried to parse, with \<open>Z\<close> replaced
  by \<open>+00:00\<close>, not the text of the entry.
\<close>

theorem describe_freshness_unparsable_returns_rewritten:
  "describe_freshness demo_lib now [(''published_at'', VStr ''03 Nov 2025 10:00Z'')]
     = Inr (VStr ''03 Nov 2025 10:00+00:00'')
   \<and> describe_freshness demo_lib now [(''published_at'', VStr ''03 Nov 2025 10:00Z'')]
     \<noteq> Inr (VStr ''03 Nov 2025 10:00Z'')"
proof -
  have "parse_published demo_lib [(''published_at'', VStr ''03 Nov 2025 10:00Z'')]
          = Inl (VStr ''03 Nov 2025 10:00+00:00'')"
    by code_simp
  then show ?thesis by (simp add: describe_freshness_def)
qed

subsection \<open>The error of a rounding\<close>

lemma round_half_even_error: "\<bar>of_int (round_half_even t) - t\<bar> \<le> 1 / 2"
proof -
  have "of_int \<lfloor>t\<rfloor> \<le> t" and "t < of_int \<lfloor>t\<rfloor> + 1" by linarith+
  then show ?thesis by (auto simp: round_half_even_def Let_def)
qed

lemma rnd_error: "\<bar>rnd x - x\<bar> \<le> \<bar>x\<bar> / 2 ^ 53"
proof (cases "x = 0")
  case True
  then show ?thesis by (simp add: rnd_zero)
next
  case False
  define a where "a = \<bar>x\<bar>"
  define sc where "sc = binexp a - 52"
  define t where "t = a / pow2 sc"
  define m where "m = round_half_even t"
  have a: "0 < a" using False by (simp add: a_def)
  have p: "0 < pow2 sc" by (rule pow2_pos)
  have at: "a = t * pow2 sc" using p by (simp add: t_def)
  have r: "rnd x = sgn x * of_int m * pow2 sc"
    using False by (simp add: rnd_def Let_def a_def sc_def t_def m_def)
  have x: "x = sgn x * a" by (simp add: a_def sgn_if)
  have "rnd x - x = sgn x * ((of_int m - t) * pow2 sc)"
    using at by (subst (2) x) (simp add: r algebra_simps)
  then have "\<bar>rnd x - x\<bar> = \<bar>of_int m - t\<bar> * pow2 sc"
    using False p by (simp add: abs_mult abs_sgn_eq)
  also have "\<dots> \<le> 1 / 2 * pow2 sc"
    using round_half_even_error [of t] p unfolding m_def by (intro mult_right_mono) simp_all
  also have "\<dots> \<le> a / 2 ^ 53"
  proof -
    have "pow2 (binexp a) \<le> a" using a by (rule binexp_le)
    moreover have "pow2 (binexp a) = pow2 sc * 2 ^ 52"
      by (simp add: sc_def pow2_powi power_int_diff)
    ultimately have "pow2 sc * 2 ^ 52 \<le> a" by simp
    then show ?thesis by (simp add: field_simps)
  qed
  finally show ?thesis by (simp add: a_def)
qed

lemma rounded_mean_error:
  fixes S :: rat
  assumes n: "0 < n"
  shows "\<bar>rnd (rnd S / n) - S / n\<bar> \<le> 3 / 2 ^ 53 * \<bar>S / n\<bar>"
proof -
  define u :: rat where "u = 1 / 2 ^ 53"
  define M where "M = S / n"
  define q where "q = rnd S / n"
  have u: "0 \<le> u" "u \<le> 1" by (simp_all add: u_def)
  have e1: "\<bar>rnd S - S\<bar> \<le> \<bar>S\<bar> * u" using rnd_error [of S] by (simp add: u_def)
  have e2: "\<bar>rnd q - q\<bar> \<le> \<bar>q\<bar> * u" using rnd_error [of q] by (simp add: u_def)
  have "q - M = (rnd S - S) / n" by (simp add: q_def M_def diff_divide_distrib)
  then have "\<bar>q - M\<bar> = \<bar>rnd S - S\<bar> / n" using n by (simp add: abs_divide)
  also have "\<dots> \<le> \<bar>S\<bar> * u / n" using e1 n by (simp add: divide_right_mono)
  also have "\<dots> = \<bar>M\<bar> * u" using n by (simp add: M_def abs_divide)
  finally have d1: "\<bar>q - M\<bar> \<le> \<bar>M\<bar> * u" .
  have "\<bar>q\<bar> \<le> \<bar>M\<bar> + \<bar>q - M\<bar>" by linarith
  with d1 have "\<bar>q\<bar> \<le> \<bar>M\<bar> + \<bar>M\<bar> * u" by linarith
  then have "\<bar>q\<bar> * u \<le> (\<bar>M\<bar> + \<bar>M\<bar> * u) * u" using u(1) by (rule mult_right_mono)
  with e2 have d2: "\<bar>rnd q - q\<bar> \<le> \<bar>M\<bar> * u + \<bar>M\<bar> * u * u" by (simp add: algebra_simps)
  have "\<bar>M\<bar> * u * u \<le> \<bar>M\<bar> * u * 1"
    using u by (intro mult_left_mono) simp_all
  with d1 d2 have "\<bar>rnd q - M\<bar> \<le> 3 * (\<bar>M\<bar> * u)" by linarith
  then show ?thesis by (simp add: q_def M_def u_def)
qed

subsection \<open>The sentiment aggregator\<close>

lemma rnd_fifth: "rnd (1 / 5) = 3602879701896397 / 18014398509481984"
  by code_simp

lemma lower_unknown: "lower ''unknown'' = ''unknown''"
  by code_simp

lemma lower_nil: "lower [] = []"
  by (simp add: lower_def)

lemma sentiment_label_spec:
  assumes "sentiment_label e = Inr sent"
  shows "sentiment_weights sent
           = (case spec_label e of None \<Rightarrow> None | Some label \<Rightarrow> spec_weight label)"
    and "(sent = ''positive'') = (spec_label e = Some ''positive'')"
    and "(sent = ''negative'') = (spec_label e = Some ''negative'')"
    and "(sent = ''neutral'') = (spec_label e = Some ''neutral'')"
proof -
  have w: "sentiment_weights l = spec_weight l" for l
    by (simp add: sentiment_weights_def spec_weight_def)
  have u: "spec_weight ''unknown'' = None" "spec_weight [] = None"
    by (simp_all add: spec_weight_def)
  show "sentiment_weights sent
           = (case spec_label e of None \<Rightarrow> None | Some label \<Rightarrow> spec_weight label)"
    using assms u
    by (cases "get e ''sentiment''")
       (auto simp: sentiment_label_def spec_label_def as_str_def py_or_def lower_unknown w
             lower_nil split: if_splits)
  show "(sent = ''positive'') = (spec_label e = Some ''positive'')"
    using assms
    by (cases "get e ''sentiment''")
       (auto simp: sentiment_label_def spec_label_def as_str_def py_or_def lower_unknown lower_def
             split: if_splits)
  show "(sent = ''negative'') = (spec_label e = Some ''negative'')"
    using assms
    by (cases "get e ''sentiment''")
       (auto simp: sentiment_label_def spec_label_def as_str_def py_or_def lower_unknown lower_def
             split: if_splits)
  show "(sent = ''neutral'') = (spec_label e = Some ''neutral'')"
    using assms
    by (cases "get e ''sentiment''")
       (auto simp: sentiment_label_def spec_label_def as_str_def py_or_def lower_unknown lower_def
             split: if_splits)
qed

lemma float_product: "fval (num_mul (PFloat w) c) = rnd (w * fval c)"
  by (cases c) simp_all

lemma score_entry_label:
  "score_entry e a = Inr a' \<Longrightarrow> \<exists>sent. sentiment_label e = Inr sent"
  by (auto simp: score_entry_def split: sum.splits)

lemma score_entry_scores:
  assumes "score_entry e a = Inr a'"
  shows "weighted_scores a'
           = weighted_scores a @ (case spec_contribution e of None \<Rightarrow> [] | Some c \<Rightarrow> [c])"
proof -
  obtain sent where s: "sentiment_label e = Inr sent"
    using score_entry_label [OF assms] by blast
  show ?thesis
  proof (cases "sentiment_weights sent")
    case None
    then have "spec_contribution e = None"
      using sentiment_label_spec(1) [OF s]
      by (auto simp: spec_contribution_def split: option.splits)
    with None s assms show ?thesis by (auto simp: score_entry_def)
  next
    case (Some w)
    then obtain label where l: "spec_label e = Some label" "spec_weight label = Some w"
      using sentiment_label_spec(1) [OF s] by (auto split: option.splits)
    show ?thesis
      using assms s Some l
      by (cases "get e ''sentiment_confidence''")
         (auto simp: score_entry_def spec_contribution_def float_product Let_def bump_count_def)
  qed
qed

lemma score_entry_counts:
  assumes "score_entry e a = Inr a'"
  shows "count_positive a'
           = count_positive a + (if spec_label e = Some ''positive'' then 1 else 0)"
    and "count_negative a'
           = count_negative a + (if spec_label e = Some ''negative'' then 1 else 0)"
    and "count_neutral a'
           = count_neutral a + (if spec_label e = Some ''neutral'' then 1 else 0)"
    and "key_entry a' = key_entry a"
proof -
  obtain sent where s: "sentiment_label e = Inr sent"
    using score_entry_label [OF assms] by blast
  note l = sentiment_label_spec(2-4) [OF s, symmetric]
  show "count_positive a'
           = count_positive a + (if spec_label e = Some ''positive'' then 1 else 0)"
    using assms s unfolding l
    by (auto simp: score_entry_def bump_count_def sentiment_weights_def Let_def
             split: option.splits pyval.splits if_splits)
  show "count_negative a'
           = count_negative a + (if spec_label e = Some ''negative'' then 1 else 0)"
    using assms s unfolding l
    by (auto simp: score_entry_def bump_count_def sentiment_weights_def Let_def
             split: option.splits pyval.splits if_splits)
  show "count_neutral a'
           = count_neutral a + (if spec_label e = Some ''neutral'' then 1 else 0)"
    using assms s unfolding l
    by (auto simp: score_entry_def bump_count_def sentiment_weights_def Let_def
             split: option.splits pyval.splits if_splits)
  show "key_entry a' = key_entry a"
    using assms s
    by (auto simp: score_entry_def bump_count_def Let_def
             split: option.splits pyval.splits if_splits)
qed

lemma select_key_keeps:
  assumes "select_key i e a = Inr a'"
  shows "weighted_scores a' = weighted_scores a"
    and "count_positive a' = count_positive a"
    and "count_negative a' = count_negative a"
    and "count_neutral a' = count_neutral a"
  using assms
  by (auto simp: select_key_def Let_def split: sum.splits if_splits)

lemma agg_loop_scores:
  "agg_loop i es a = Inr a' \<Longrightarrow>
   weighted_scores a' = weighted_scores a @ spec_contributions es"
proof (induction es arbitrary: i a)
  case Nil
  then show ?case by (simp add: spec_contributions_def map_filter_simps)
next
  case (Cons e es)
  from Cons.prems obtain a1 a2 where s1: "score_entry e a = Inr a1"
    and s2: "select_key i e a1 = Inr a2" and s3: "agg_loop (Suc i) es a2 = Inr a'"
    by (auto split: sum.splits)
  have "weighted_scores a2
          = weighted_scores a @ (case spec_contribution e of None \<Rightarrow> [] | Some c \<Rightarrow> [c])"
    using score_entry_scores [OF s1] select_key_keeps(1) [OF s2] by simp
  with Cons.IH [OF s3] show ?case
    by (simp add: spec_contributions_def map_filter_simps split: option.splits)
qed

lemma agg_loop_counts:
  "agg_loop i es a = Inr a' \<Longrightarrow>
   count_positive a' = count_positive a + spec_count ''positive'' es
   \<and> count_negative a' = count_negative a + spec_count ''negative'' es
   \<and> count_neutral a' = count_neutral a + spec_count ''neutral'' es"
proof (induction es arbitrary: i a)
  case Nil
  then show ?case by (simp add: spec_count_def)
next
  case (Cons e es)
  from Cons.prems obtain a1 a2 where s1: "score_entry e a = Inr a1"
    and s2: "select_key i e a1 = Inr a2" and s3: "agg_loop (Suc i) es a2 = Inr a'"
    by (auto split: sum.splits)
  show ?case
    using Cons.IH [OF s3] score_entry_counts(1-3) [OF s1] select_key_keeps(2-4) [OF s2]
    by (simp add: spec_count_def)
qed

lemma net_score_spec:
  assumes "agg_loop 0 entries agg_init = Inr a"
  shows "net_score_of (weighted_scores a) = spec_net_score entries"
proof -
  have "weighted_scores a = spec_contributions entries"
    using agg_loop_scores [OF assms] by (simp add: agg_init_def)
  then show ?thesis
    by (simp add: net_score_of_def spec_net_score_def fmean_def Let_def)
qed

lemma summary_line_spec:
  assumes "agg_loop 0 entries agg_init = Inr a"
  shows "summary_line_of a
     = sentiment_bias (spec_net_score entries) @ '': +''
       @ str_int (spec_count ''positive'' entries) @ '' / -''
       @ str_int (spec_count ''negative'' entries) @ '' / =''
       @ str_int (spec_count ''neutral'' entries)
       @ '' (net score '' @ format_f_plus 2 (spec_net_score entries) @ '').''"
proof -
  have c: "count_positive a = spec_count ''positive'' entries"
    "count_negative a = spec_count ''negative'' entries"
    "count_neutral a = spec_count ''neutral'' entries"
    using agg_loop_counts [OF assms] by (simp_all add: agg_init_def)
  show ?thesis
    by (simp only: summary_line_of_def Let_def net_score_spec [OF assms] c)
qed

lemma spec_net_score_mean:
  "\<bar>spec_net_score entries - arithmetic_mean (spec_contributions entries)\<bar>
     \<le> 3 / 2 ^ 53 * \<bar>arithmetic_mean (spec_contributions entries)\<bar>"
proof (cases "spec_contributions entries = []")
  case True
  then show ?thesis by (simp add: spec_net_score_def arithmetic_mean_def)
next
  case False
  then have "0 < (of_nat (length (spec_contributions entries)) :: rat)" by simp
  from rounded_mean_error [OF this, of "sum_list (spec_contributions entries)"] False
  show ?thesis by (simp add: spec_net_score_def arithmetic_mean_def Let_def)
qed

lemma sentiment_bias_iff:
  "(sentiment_bias s = ''Bullish tilt'') = (rnd (1 / 5) \<le> s)"
  "(sentiment_bias s = ''Bearish tilt'') = (s \<le> - rnd (1 / 5))"
  "(sentiment_bias s = ''Mixed/neutral bias'') = (- rnd (1 / 5) < s \<and> s < rnd (1 / 5))"
  by (auto simp: sentiment_bias_def rnd_fifth)

lemma example_summary:
  "summarize_news_sentiment L now example_entries
   = Inr (Some (''Bullish tilt: +1 / -1 / =1 (net score +0.20).'',
                ''Key headline [POSITIVE] '', Some (0, hd example_entries)))"
  by code_simp

lemma example_contributions:
  "spec_contributions example_entries
     = [3602879701896397 / 4503599627370496, - (3602879701896397 / 18014398509481984), 0]"
  by code_simp

lemma example_score: "spec_net_score example_entries = 7205759403792795 / 36028797018963968"
  by code_simp

lemma spec_net_score_unknown:
  "\<forall>e\<in>set entries. spec_contribution e = None \<Longrightarrow> spec_net_score entries = 0"
  by (simp add: spec_net_score_def spec_contributions_def List.map_filter_def Let_def
        filter_empty_conv)

text \<open>
  C6. Whenever the aggregator returns a summary line, the line is built from the label
  counts and from the net score of the specification. The contributions are those of the
  entries with a recognised label, weight times confidence or the weight alone; the score
  is 0 when there is none, and otherwise their mean, computed in floating point: the sum
  rounded, divided by the count and rounded again, which lies within three units of
  \<open>2 ^ - 53\<close>, relative, of the exact arithmetic mean. The bias is "Bullish tilt" exactly
  from 0.2 up, "Bearish tilt" exactly from -0.2 down, and "Mixed/neutral bias" strictly
  between. The three entries of the example contribute the doubles 0.8, -0.2 and 0 and give
  the line "Bullish tilt: +1 / -1 / =1 (net score +0.20)."; their score is the double next
  above 0.2.
\<close>

theorem summarize_news_sentiment_score:
  assumes "summarize_news_sentiment L now entries = Inr (Some (summary_line, key_line, key))"
  shows "summary_line
           = sentiment_bias (spec_net_score entries) @ '': +''
             @ str_int (spec_count ''positive'' entries) @ '' / -''
             @ str_int (spec_count ''negative'' entries) @ '' / =''
             @ str_int (spec_count ''neutral'' entries)
             @ '' (net score '' @ format_f_plus 2 (spec_net_score entries) @ '').''
       \<and> \<bar>spec_net_score entries - arithmetic_mean (spec_contributions entries)\<bar>
           \<le> 3 / 2 ^ 53 * \<bar>arithmetic_mean (spec_contributions entries)\<bar>
       \<and> ((\<forall>e\<in>set entries. spec_contribution e = None) \<longrightarrow> spec_net_score entries = 0)
       \<and> (sentiment_bias s = ''Bullish tilt'') = (rnd (1 / 5) \<le> s)
       \<and> (sentiment_bias s = ''Bearish tilt'') = (s \<le> - rnd (1 / 5))
       \<and> (sentiment_bias s = ''Mixed/neutral bias'') = (- rnd (1 / 5) < s \<and> s < rnd (1 / 5))
       \<and> summarize_news_sentiment L now example_entries
           = Inr (Some (''Bullish tilt: +1 / -1 / =1 (net score +0.20).'',
                        ''Key headline [POSITIVE] '', Some (0, hd example_entries)))
       \<and> spec_contributions example_entries
           = [3602879701896397 / 4503599627370496, - (3602879701896397 / 18014398509481984), 0]
       \<and> spec_net_score example_entries = 7205759403792795 / 36028797018963968
       \<and> rnd (1 / 5) \<le> spec_net_score example_entries"
proof -
  from assms obtain a where a: "agg_loop 0 entries agg_init = Inr a"
    and sl: "summary_line = summary_line_of a"
    by (auto simp: summarize_news_sentiment_def split: if_splits sum.splits)
  have 1: "summary_line
           = sentiment_bias (spec_net_score entries) @ '': +''
             @ str_int (spec_count ''positive'' entries) @ '' / -''
             @ str_int (spec_count ''negative'' entries) @ '' / =''
             @ str_int (spec_count ''neutral'' entries)
             @ '' (net score '' @ format_f_plus 2 (spec_net_score entries) @ '').''"
    unfolding sl by (rule summary_line_spec [OF a])
  have 2: "(\<forall>e\<in>set entries. spec_contribution e = None) \<longrightarrow> spec_net_score entries = 0"
    using spec_net_score_unknown by blast
  have 3: "rnd (1 / 5) \<le> spec_net_score example_entries"
    by (simp add: example_score rnd_fifth)
  show ?thesis
    using 1 2 3 spec_net_score_mean [of entries] sentiment_bias_iff [of s]
      example_summary [of L now] example_contributions example_score
    by (intro conjI) simp_all
qed

theorem summarize_news_sentiment_score_witness:
  "summarize_news_sentiment demo_lib 0 example_entries
     = Inr (Some (''Bullish tilt: +1 / -1 / =1 (net score +0.20).'',
                  ''Key headline [POSITIVE] '', Some (0, hd example_entries)))
   \<and> ''Bullish tilt: +1 / -1 / =1 (net score +0.20).''
     = sentiment_bias (spec_net_score example_entries) @ '': +''
       @ str_int (spec_count ''positive'' example_entries) @ '' / -''
       @ str_int (spec_count ''negative'' example_entries) @ '' / =''
       @ str_int (spec_count ''neutral'' example_entries)
       @ '' (net score '' @ format_f_plus 2 (spec_net_score example_entries) @ '').''"
  using summarize_news_sentiment_score [OF example_summary [of demo_lib 0]]
    example_summary [of demo_lib 0]
  by blast

subsection \<open>The key entry of a list without labels and dates\<close>

lemma news_entry_nonempty: "news_entry e \<Longrightarrow> e \<noteq> []"
  by (auto simp: news_entry_def get_def)

lemma news_entry_headline: "news_entry e \<Longrightarrow> \<exists>t. headline_text e = Inr t"
  by (auto simp: news_entry_def text_or_none_def headline_text_def as_str_def py_or_def
        get_default_def get_def split: pyval.splits option.splits)

lemma news_entry_label: "news_entry e \<Longrightarrow> \<exists>sent. sentiment_label e = Inr sent"
  by (auto simp: news_entry_def text_or_none_def sentiment_label_def as_str_def py_or_def
           split: pyval.splits)

lemma news_entry_upper: "news_entry e \<Longrightarrow> \<exists>u. sentiment_upper e = Inr u"
  by (auto simp: news_entry_def text_or_none_def sentiment_upper_def as_str_def py_or_def
           split: pyval.splits)

lemma undated_freshness:
  "unknown_undated e \<Longrightarrow> describe_freshness L now e = Inr (get e ''raw_date'')"
  by (simp add: unknown_undated_def describe_freshness_def parse_published_def py_or_def)

lemma score_entry_unknown:
  assumes "news_entry e" and "unknown_undated e"
  shows "score_entry e a = Inr (a\<lparr>count_unknown := count_unknown a + 1\<rparr>)"
proof -
  obtain sent where s: "sentiment_label e = Inr sent"
    using news_entry_label [OF assms(1)] by blast
  have "sentiment_weights sent = None"
    using sentiment_label_spec(1) [OF s] assms(2)
    by (auto simp: unknown_undated_def split: option.splits)
  with s show ?thesis by (simp add: score_entry_def)
qed

lemma select_key_undated:
  "key_truthy (key_entry a) \<Longrightarrow> unknown_undated e \<Longrightarrow> select_key i e a = Inr a"
  by (simp add: unknown_undated_def select_key_def timestamp_of_def py_or_def Let_def)

lemma agg_loop_unknown:
  "key_truthy (key_entry a) \<Longrightarrow> \<forall>e\<in>set es. news_entry e \<and> unknown_undated e \<Longrightarrow>
   agg_loop i es a = Inr (a\<lparr>count_unknown := count_unknown a + int (length es)\<rparr>)"
proof (induction es arbitrary: i a)
  case Nil
  then show ?case by simp
next
  case (Cons e es)
  have n: "news_entry e" and u: "unknown_undated e" using Cons.prems(2) by simp_all
  have k: "key_truthy (key_entry (a\<lparr>count_unknown := count_unknown a + 1\<rparr>))"
    using Cons.prems(1) by simp
  have "agg_loop (Suc i) es (a\<lparr>count_unknown := count_unknown a + 1\<rparr>)
          = Inr (a\<lparr>count_unknown := count_unknown a + 1 + int (length es)\<rparr>)"
    using Cons.IH [OF k, of "Suc i"] Cons.prems(2) by simp
  then show ?case
    using score_entry_unknown [OF n u, of a] select_key_undated [OF k u, of i]
    by (simp add: add.assoc)
qed

lemma agg_loop_first:
  assumes "\<forall>e\<in>set (e0 # es). news_entry e \<and> unknown_undated e"
  shows "agg_loop 0 (e0 # es) agg_init
           = Inr (agg_init\<lparr>count_unknown := 1 + int (length es), key_entry := Some (0, e0)\<rparr>)"
proof -
  have n: "news_entry e0" and u: "unknown_undated e0" using assms by simp_all
  define a1 where "a1 = agg_init\<lparr>count_unknown := count_unknown agg_init + 1\<rparr>"
  define a2 where "a2 = a1\<lparr>key_entry := Some (0, e0)\<rparr>"
  have s1: "score_entry e0 agg_init = Inr a1"
    unfolding a1_def by (rule score_entry_unknown [OF n u])
  have s2: "select_key 0 e0 a1 = Inr a2"
    by (simp add: select_key_def key_truthy_def a1_def a2_def agg_init_def)
  have k: "key_truthy (key_entry a2)"
    using news_entry_nonempty [OF n] by (simp add: a2_def key_truthy_def)
  have "agg_loop (Suc 0) es a2 = Inr (a2\<lparr>count_unknown := count_unknown a2 + int (length es)\<rparr>)"
    using agg_loop_unknown [OF k] assms by simp
  then show ?thesis
    using s1 s2 by (simp add: a1_def a2_def agg_init_def)
qed

lemma str_int_0: "str_int 0 = ''0''"
  by code_simp

lemma format_zero: "format_f_plus 2 0 = ''+0.00''"
  by code_simp

lemma summary_line_empty:
  assumes "weighted_scores a = []" "count_positive a = 0" "count_negative a = 0"
    "count_neutral a = 0"
  shows "summary_line_of a = ''Mixed/neutral bias: +0 / -0 / =0 (net score +0.00).''"
proof -
  have "sentiment_bias 0 = ''Mixed/neutral bias''"
    by (simp add: sentiment_bias_def rnd_fifth)
  then show ?thesis
    using assms by (simp add: summary_line_of_def net_score_of_def str_int_0 format_zero)
qed

text \<open>
  C7. For a non-empty list of news entries (dictionaries with a title, as the data model has
  them) in which every entry has an unrecognised or absent label and no timestamp, the
  aggregator returns: no exception is raised, the summary line has the counts
  \<open>+0 / -0 / =0\<close> and the score \<open>+0.00\<close>, and the key entry is not \<open>None\<close>: it is the
  first entry of the list, the one at position 0.
\<close>

theorem summarize_news_sentiment_key_first:
  assumes "entries \<noteq> []"
    and "\<forall>e\<in>set entries. news_entry e"
    and "\<forall>e\<in>set entries. unknown_undated e"
  shows "\<exists>key_line. summarize_news_sentiment L now entries
           = Inr (Some (''Mixed/neutral bias: +0 / -0 / =0 (net score +0.00).'', key_line,
                        Some (0, hd entries)))"
proof -
  obtain e0 es where es: "entries = e0 # es" using assms(1) by (cases entries) auto
  have n: "news_entry e0" and ud: "unknown_undated e0" using assms(2,3) es by simp_all
  have e0: "e0 \<noteq> []" using n by (rule news_entry_nonempty)
  define a where
    "a = agg_init\<lparr>count_unknown := 1 + int (length es), key_entry := Some (0, e0)\<rparr>"
  have "\<forall>e\<in>set (e0 # es). news_entry e \<and> unknown_undated e"
    using assms(2,3) es by simp
  then have loop: "agg_loop 0 entries agg_init = Inr a"
    unfolding es a_def by (rule agg_loop_first)
  have sl: "summary_line_of a = ''Mixed/neutral bias: +0 / -0 / =0 (net score +0.00).''"
    by (rule summary_line_empty) (simp_all add: a_def agg_init_def)
  have k: "key_truthy (key_entry a)" using e0 by (simp add: a_def key_truthy_def)
  obtain u where u: "sentiment_upper e0 = Inr u" using news_entry_upper [OF n] by blast
  obtain t where t: "headline_text e0 = Inr t" using news_entry_headline [OF n] by blast
  obtain kl where kl: "key_line_of L now (key_entry a) = Inr kl"
    using k t u undated_freshness [OF ud, of L now]
    by (simp add: key_line_of_def a_def Let_def)
  have "summarize_news_sentiment L now entries
          = Inr (Some (summary_line_of a, kl, key_entry a))"
    using assms(1) loop kl k by (simp add: summarize_news_sentiment_def)
  then show ?thesis using sl es by (simp add: a_def)
qed

lemma witness_entries:
  "news_entry [(''title'', VStr ''Rights issue announced''), (''source'', VStr ''wire'')]"
  "news_entry [(''title'', VStr ''Dividend date set'')]"
  "unknown_undated [(''title'', VStr ''Rights issue announced''), (''source'', VStr ''wire'')]"
  "unknown_undated [(''title'', VStr ''Dividend date set'')]"
  by code_simp+

theorem summarize_news_sentiment_key_first_witness:
  "\<exists>key_line. summarize_news_sentiment demo_lib 0
      [[(''title'', VStr ''Rights issue announced''), (''source'', VStr ''wire'')],
       [(''title'', VStr ''Dividend date set'')]]
    = Inr (Some (''Mixed/neutral bias: +0 / -0 / =0 (net score +0.00).'', key_line,
                 Some (0, [(''title'', VStr ''Rights issue announced''),
                           (''source'', VStr ''wire'')])))"
  using summarize_news_sentiment_key_first
    [of "[[(''title'', VStr ''Rights issue announced''), (''source'', VStr ''wire'')],
          [(''title'', VStr ''Dividend date set'')]]" demo_lib 0]
    witness_entries
  by simp

end
